theory Spec2Isabelle
  imports Complex_Main "HOL-Library.Log_Nat"
begin

section \<open>Python's conversions between text and numbers\<close>

text \<open>
  The handlers call \<^verbatim>\<open>int(s)\<close>, \<^verbatim>\<open>float(s)\<close>, \<^verbatim>\<open>int(x)\<close> on a float and format an
  integer inside an f-string. These are CPython built-ins; they are written out here for
  text made of ASCII characters, with every exception they raise as a value.
\<close>

datatype exn = ValueError | TypeError | OverflowError

definition is_digit :: "char \<Rightarrow> bool" where
  "is_digit c = (48 \<le> (of_char c :: nat) \<and> (of_char c :: nat) \<le> 57)"

definition digit_value :: "char \<Rightarrow> nat" where
  "digit_value c = of_char c - 48"

text \<open>The characters \<^verbatim>\<open>Py_ISSPACE\<close> accepts: space, and tab to carriage return.\<close>

definition is_space :: "char \<Rightarrow> bool" where
  "is_space c =
     (of_char c = (32 :: nat) \<or> (9 \<le> (of_char c :: nat) \<and> (of_char c :: nat) \<le> 13))"

definition strip :: "string \<Rightarrow> string" where
  "strip s = rev (dropWhile is_space (rev (dropWhile is_space s)))"

definition nat_of_digits :: "string \<Rightarrow> nat" where
  "nat_of_digits ds = foldl (\<lambda>n c. 10 * n + digit_value c) 0 ds"

text \<open>
  Underscores in a numeric literal: one may stand between two digits and nowhere else.
  The first argument is the character before the rest of the text.
\<close>

fun drop_underscores :: "char \<Rightarrow> string \<Rightarrow> string option" where
  "drop_underscores prev [] = (if prev = CHR ''_'' then None else Some [])"
| "drop_underscores prev (c # cs) =
     (if c = CHR ''_'' then (if is_digit prev then drop_underscores c cs else None)
      else if prev = CHR ''_'' \<and> \<not> is_digit c then None
      else map_option ((#) c) (drop_underscores c cs))"

definition split_sign :: "string \<Rightarrow> bool \<times> string" where
  "split_sign s =
     (case s of
        [] \<Rightarrow> (False, [])
      | c # t \<Rightarrow>
          if c = CHR ''-'' then (True, t) else if c = CHR ''+'' then (False, t) else (False, s))"

definition signed :: "bool \<Rightarrow> string \<Rightarrow> int" where
  "signed neg ds = (if neg then - int (nat_of_digits ds) else int (nat_of_digits ds))"

text \<open>
  \<^verbatim>\<open>int(s)\<close> for a string: blanks around an optional sign and decimal digits. The
  bound that recent interpreters put on the number of digits (4300 unless configured)
  is left out: a longer text of digits is read as the integer it denotes.
\<close>

definition py_int :: "string \<Rightarrow> exn + int" where
  "py_int s =
     (let (neg, body) = split_sign (strip s) in
      case drop_underscores (CHR 0x00) body of
        None \<Rightarrow> Inl ValueError
      | Some ds \<Rightarrow>
          if ds \<noteq> [] \<and> list_all is_digit ds then Inr (signed neg ds) else Inl ValueError)"

text \<open>\<^verbatim>\<open>str(i)\<close>, which is what \<^verbatim>\<open>f"{i}"\<close> inserts for an integer.\<close>

fun digits_of :: "nat \<Rightarrow> string" where
  "digits_of n =
     (if n < 10 then [char_of (48 + n)]
      else digits_of (n div 10) @ [char_of (48 + n mod 10)])"

declare digits_of.simps [simp del]

definition py_str :: "int \<Rightarrow> string" where
  "py_str i = (if i < 0 then CHR ''-'' # digits_of (nat (- i)) else digits_of (nat i))"

text \<open>
  A Python float is an IEEE 754 binary64 number: a finite value is kept as the rational
  it denotes (the sign of a zero is dropped, \<^verbatim>\<open>int\<close> does not see it).
  \<^verbatim>\<open>float(s)\<close> rounds the decimal it reads to the nearest binary64 value, ties to an
  even significand, and gives an infinity from \<open>2^1024 - 2^970\<close> on.
\<close>

datatype pyfloat = Finite rat | PosInf | NegInf | NaN

definition pow2 :: "int \<Rightarrow> rat" where
  "pow2 e = (if e \<ge> 0 then 2 ^ nat e else 1 / 2 ^ nat (- e))"

definition pow10 :: "int \<Rightarrow> rat" where
  "pow10 e = (if e \<ge> 0 then 10 ^ nat e else 1 / 10 ^ nat (- e))"

definition floor_log2 :: "rat \<Rightarrow> int" where
  "floor_log2 q =
     (let (a, b) = quotient_of q; k = bitlen a - bitlen b
      in if pow2 k \<le> q then k else k - 1)"

definition round_half_even :: "rat \<Rightarrow> int" where
  "round_half_even q =
     (let f = \<lfloor>q\<rfloor>; d = q - of_int f
      in if d < 1 / 2 then f else if d > 1 / 2 then f + 1 else if even f then f else f + 1)"

definition round_double :: "rat \<Rightarrow> pyfloat" where
  "round_double q =
     (if q = 0 then Finite 0
      else let e = max (floor_log2 \<bar>q\<bar> - 52) (- 1074);
               m = round_half_even (\<bar>q\<bar> / pow2 e);
               v = of_int m * pow2 e
           in if v \<ge> pow2 1024 then (if q < 0 then NegInf else PosInf)
              else Finite (if q < 0 then - v else v))"

definition lower :: "char \<Rightarrow> char" where
  "lower c =
     (if 65 \<le> (of_char c :: nat) \<and> (of_char c :: nat) \<le> 90
      then char_of (of_char c + (32 :: nat)) else c)"

definition parse_exponent :: "string \<Rightarrow> int option" where
  "parse_exponent s =
     (case s of
        [] \<Rightarrow> Some 0
      | c # t \<Rightarrow>
          if c = CHR ''e'' \<or> c = CHR ''E'' then
            (let (neg, ds) = split_sign t in
             if ds \<noteq> [] \<and> list_all is_digit ds then Some (signed neg ds) else None)
          else None)"

text \<open>Digits, an optional point and more digits (one digit at least), an optional exponent.\<close>

definition parse_decimal :: "string \<Rightarrow> rat option" where
  "parse_decimal s =
     (let ip = takeWhile is_digit s; r1 = dropWhile is_digit s;
          (fp, r2) = (case r1 of
                        [] \<Rightarrow> ([], [])
                      | c # t \<Rightarrow>
                          if c = CHR ''.'' then (takeWhile is_digit t, dropWhile is_digit t)
                          else ([], r1))
      in if ip = [] \<and> fp = [] then None
         else (case parse_exponent r2 of
                 None \<Rightarrow> None
               | Some e \<Rightarrow>
                   Some (of_nat (nat_of_digits (ip @ fp)) * pow10 (e - int (length fp)))))"

definition py_float :: "string \<Rightarrow> exn + pyfloat" where
  "py_float s =
     (case drop_underscores (CHR 0x00) s of
        None \<Rightarrow> Inl ValueError
      | Some s1 \<Rightarrow>
          (let (neg, body) = split_sign (strip s1) in
           if map lower body = ''inf'' \<or> map lower body = ''infinity''
           then Inr (if neg then NegInf else PosInf)
           else if map lower body = ''nan'' then Inr NaN
           else (case parse_decimal body of
                   None \<Rightarrow> Inl ValueError
                 | Some q \<Rightarrow> Inr (round_double (if neg then - q else q)))))"

text \<open>\<^verbatim>\<open>int(x)\<close> for a float truncates towards zero and refuses infinities and NaN.\<close>

definition py_trunc :: "pyfloat \<Rightarrow> exn + int" where
  "py_trunc x =
     (case x of
        Finite q \<Rightarrow> Inr (if q \<ge> 0 then \<lfloor>q\<rfloor> else \<lceil>q\<rceil>)
      | PosInf \<Rightarrow> Inl OverflowError
      | NegInf \<Rightarrow> Inl OverflowError
      | NaN \<Rightarrow> Inl ValueError)"

text \<open>
  The arithmetic of floats that the cache uses. \<^verbatim>\<open>x + i\<close> with a float and an
  integer first turns the integer into a float, rounded to the nearest binary64 value
  (an \<^verbatim>\<open>OverflowError\<close> when there is none), and then adds the two floats, which
  rounds the exact sum. A comparison with a NaN is false.
\<close>

definition float_of_int :: "int \<Rightarrow> exn + rat" where
  "float_of_int i =
     (case round_double (of_int i) of
        Finite q \<Rightarrow> Inr q
      | PosInf \<Rightarrow> Inl OverflowError
      | NegInf \<Rightarrow> Inl OverflowError
      | NaN \<Rightarrow> Inl OverflowError)"

definition float_add :: "rat \<Rightarrow> rat \<Rightarrow> pyfloat" where
  "float_add a b = round_double (a + b)"

fun float_less :: "pyfloat \<Rightarrow> pyfloat \<Rightarrow> bool" where
  "float_less (Finite a) (Finite b) = (a < b)"
| "float_less (Finite a) PosInf = True"
| "float_less NegInf (Finite b) = True"
| "float_less NegInf PosInf = True"
| "float_less _ _ = False"

text \<open>A rational number is a binary64 value when rounding leaves it as it is.\<close>

definition binary64 :: "rat \<Rightarrow> bool" where
  "binary64 q = (round_double q = Finite q)"

section \<open>The TTL cache of \<^verbatim>\<open>app.py\<close>\<close>

text \<open>
  The module keeps one dictionary \<^verbatim>\<open>cache = {}\<close> of entries
  \<^verbatim>\<open>key: (expiry_ts, value)\<close>. The dictionary is a map, threaded through the two
  functions that touch it. The clock reading \<^verbatim>\<open>time.time()\<close> is an argument: a finite
  float, kept as the rational number it denotes. The expiry is the float that the
  addition in \<open>set_cached\<close> produces.
\<close>

type_synonym ('k, 'v) cache = "'k \<rightharpoonup> pyfloat \<times> 'v"

text \<open>
  \<^verbatim>\<open>
  def get_cached(key):
      entry = cache.get(key)
      if not entry:
          return None
      expiry, value = entry
      if time.time() > expiry:
          cache.pop(key, None)
          return None
      return value
  \<close>
  An entry is a pair, which Python never takes for false, so \<^verbatim>\<open>not entry\<close> holds exactly
  when the key is missing. The result is the returned value and the dictionary afterwards.
\<close>

definition get_cached :: "rat \<Rightarrow> ('k, 'v) cache \<Rightarrow> 'k \<Rightarrow> 'v option \<times> ('k, 'v) cache" where
  "get_cached now cache key =
     (case cache key of
        None \<Rightarrow> (None, cache)
      | Some (expiry, value) \<Rightarrow>
          if float_less expiry (Finite now) then (None, cache(key := None))
          else (Some value, cache))"

text \<open>
  A call returns or raises; \<open>Raises m\<close> carries \<^verbatim>\<open>str(e)\<close> of the exception.
\<close>

datatype 'a outcome = Raises string | Returns 'a

text \<open>
  \<^verbatim>\<open>
  def set_cached(key, value, ttl=CACHE_TTL):
      cache[key] = (time.time() + ttl, value)
  \<close>
  Every caller passes an integer number of seconds (\<^verbatim>\<open>CACHE_TTL\<close> or \<^verbatim>\<open>30\<close>). The
  sum is a float addition; an integer beyond the range of floats makes it raise, and
  nothing is stored.
\<close>

definition set_cached ::
  "rat \<Rightarrow> ('k, 'v) cache \<Rightarrow> 'k \<Rightarrow> 'v \<Rightarrow> int \<Rightarrow> ('k, 'v) cache outcome" where
  "set_cached now cache key value ttl =
     (case float_of_int ttl of
        Inl e \<Rightarrow> Raises ''int too large to convert to float''
      | Inr t \<Rightarrow> Returns (cache(key \<mapsto> (float_add now t, value))))"

section \<open>Raw report rows and their normalization\<close>

text \<open>
  A row of the upstream response carries \<^verbatim>\<open>dimension_values\<close> and
  \<^verbatim>\<open>metric_values\<close>, each a sequence of objects with a \<^verbatim>\<open>.value\<close>. The client
  library delivers the value of a metric as text; \<open>PyNone\<close> stands for a value that is
  \<^verbatim>\<open>None\<close>, on which \<^verbatim>\<open>float\<close> raises a \<^verbatim>\<open>TypeError\<close>.
\<close>

datatype pyval = PyNone | PyStr string

record row =
  dimension_values :: "string list"
  metric_values :: "pyval list"

text \<open>The expression \<^verbatim>\<open>int(float(v))\<close>.\<close>

definition int_float :: "pyval \<Rightarrow> exn + int" where
  "int_float v =
     (case v of
        PyNone \<Rightarrow> Inl TypeError
      | PyStr s \<Rightarrow> (case py_float s of Inl e \<Rightarrow> Inl e | Inr x \<Rightarrow> py_trunc x))"

text \<open>
  Every row-shaped handler reads its metric with the same five lines:
  \<^verbatim>\<open>
  value = 0
  if r.metric_values:
      try:
          value = int(float(r.metric_values[0].value))
      except Exception:
          value = 0
  \<close>
\<close>

definition coerce_metric :: "pyval list \<Rightarrow> int" where
  "coerce_metric mvs =
     (case mvs of
        [] \<Rightarrow> 0
      | v # _ \<Rightarrow> (case int_float v of Inl e \<Rightarrow> 0 | Inr n \<Rightarrow> n))"

text \<open>
  \<^verbatim>\<open>r.dimension_values[0].value if r.dimension_values else "(unknown)"\<close>
\<close>

definition first_dimension :: "row \<Rightarrow> string" where
  "first_dimension r =
     (if dimension_values r \<noteq> [] then dimension_values r ! 0 else ''(unknown)'')"

datatype json = JInt int | JStr string | JList "json list" | JObj "(string \<times> json) list"

text \<open>The truth value Python gives to a payload in \<^verbatim>\<open>if cached:\<close>.\<close>

fun truthy :: "json \<Rightarrow> bool" where
  "truthy (JInt n) = (n \<noteq> 0)"
| "truthy (JStr s) = (s \<noteq> [])"
| "truthy (JList xs) = (xs \<noteq> [])"
| "truthy (JObj kvs) = (kvs \<noteq> [])"

text \<open>
  \<^verbatim>\<open>
  total = 0
  if resp.rows:
      for row in resp.rows:
          if row.metric_values:
              try:
                  total += int(float(row.metric_values[0].value))
              except Exception:
                  pass
  else:
      total = 0
  \<close>
\<close>

fun sum_rows :: "row list \<Rightarrow> int \<Rightarrow> int" where
  "sum_rows [] total' = total'"
| "sum_rows (r # rs) total' =
     sum_rows rs
       (case metric_values r of
          [] \<Rightarrow> total'
        | v # _ \<Rightarrow> (case int_float v of Inl e \<Rightarrow> total' | Inr n \<Rightarrow> total' + n))"

definition realtime_active_total :: "row list \<Rightarrow> int" where
  "realtime_active_total rows = (if rows \<noteq> [] then sum_rows rows 0 else 0)"

text \<open>
  The loop \<^verbatim>\<open>for r in resp.rows: ... rows.append({...})\<close> of the four row-shaped
  handlers, with the dictionary built from a row as a parameter.
\<close>

fun append_rows :: "(row \<Rightarrow> json) \<Rightarrow> row list \<Rightarrow> json list \<Rightarrow> json list" where
  "append_rows f [] rows = rows"
| "append_rows f (r # rs) rows = append_rows f rs (rows @ [f r])"

definition realtime_pages_row :: "row \<Rightarrow> json" where
  "realtime_pages_row r =
     JObj [(''pageTitle'', JStr (first_dimension r)),
           (''activeUsers'', JInt (coerce_metric (metric_values r)))]"

definition realtime_pages_rows :: "row list \<Rightarrow> json list" where
  "realtime_pages_rows rows = (if rows \<noteq> [] then append_rows realtime_pages_row rows [] else [])"

definition urls_row :: "row \<Rightarrow> json" where
  "urls_row r =
     JObj [(''pageLocation'', JStr (first_dimension r)),
           (''screenPageViews'', JInt (coerce_metric (metric_values r)))]"

definition urls_rows :: "row list \<Rightarrow> json list" where
  "urls_rows rows = append_rows urls_row rows []"

text \<open>
  \<^verbatim>\<open>
  src = r.dimension_values[0].value if len(r.dimension_values) > 0 else "(unknown)"
  med = r.dimension_values[1].value if len(r.dimension_values) > 1 else "(unknown)"
  \<close>
\<close>

definition traffic_row :: "row \<Rightarrow> json" where
  "traffic_row r =
     (let src = (if length (dimension_values r) > 0 then dimension_values r ! 0
                 else ''(unknown)'');
          med = (if length (dimension_values r) > 1 then dimension_values r ! 1
                 else ''(unknown)'');
          sess = coerce_metric (metric_values r)
      in JObj [(''source'', JStr src), (''medium'', JStr med), (''sessions'', JInt sess)])"

definition traffic_rows :: "row list \<Rightarrow> json list" where
  "traffic_rows rows = append_rows traffic_row rows []"

definition top_countries_row :: "row \<Rightarrow> json" where
  "top_countries_row r =
     JObj [(''country'', JStr (first_dimension r)),
           (''activeUsers'', JInt (coerce_metric (metric_values r)))]"

definition top_countries_rows :: "row list \<Rightarrow> json list" where
  "top_countries_rows rows = (if rows \<noteq> [] then append_rows top_countries_row rows [] else [])"

section \<open>The request handlers\<close>

text \<open>
  The request sent upstream. \<open>RunRealtimeReportRequest\<close> carries the property, the
  dimensions, the metrics and the limit when one is given; \<open>RunReportRequest\<close> carries
  the property, the date range (start, end), the dimensions, the metrics and the limit.
\<close>

datatype report_request =
    RunRealtimeReportRequest string "string list" "string list" "int option"
  | RunReportRequest string "string \<times> string" "string list" "string list" int

text \<open>
  A call into the client library returns or raises, as an \<open>outcome\<close>. A request that
  the library refuses to build raises inside the same \<^verbatim>\<open>try\<close> block and counts as a
  failed call.
\<close>

text \<open>
  What a handler reads from outside during one request: the two module constants, the
  clock at the lookup (\<^verbatim>\<open>time.time()\<close> in \<open>get_cached\<close>), what \<^verbatim>\<open>get_ga_client()\<close>
  does and what the client it returns answers to a request (\<^verbatim>\<open>resp.rows\<close>), the text of
  \<^verbatim>\<open>time.strftime("%Y-%m-%dT%H:%M:%SZ", time.gmtime())\<close> when the payload is built, and
  the clock at the store (\<^verbatim>\<open>time.time()\<close> in \<open>set_cached\<close>).
\<close>

record env =
  PROPERTY :: string
  CACHE_TTL :: int
  lookup_time :: rat
  get_ga_client :: "(report_request \<Rightarrow> row list outcome) outcome"
  fetched_at :: string
  store_time :: rat

text \<open>
  The state that outlives a request: the cache, and the list of the requests sent
  upstream so far, which records every call of \<^verbatim>\<open>run_realtime_report\<close> and
  \<^verbatim>\<open>run_report\<close>.
\<close>

record world =
  cache :: "(string, json) cache"
  upstream_calls :: "report_request list"

text \<open>
  A handler returns a JSON body with a status, or lets an exception escape.
\<close>

datatype response = Response json nat | Unhandled exn

definition error_response :: "string \<Rightarrow> response" where
  "error_response e = Response (JObj [(''error'', JStr e)]) 500"

text \<open>
  \<^verbatim>\<open>
  client = get_ga_client()
  request_body = ...
  resp = client.run_realtime_report(request_body)
  \<close>
\<close>

definition fetch_report :: "env \<Rightarrow> report_request \<Rightarrow> world \<Rightarrow> row list outcome \<times> world" where
  "fetch_report env request_body w =
     (case get_ga_client env of
        Raises e \<Rightarrow> (Raises e, w)
      | Returns client \<Rightarrow>
          (client request_body, w\<lparr>upstream_calls := upstream_calls w @ [request_body]\<rparr>))"

text \<open>
  The five report handlers are one frame around a cache key, a request, the payload
  built from the rows and a ttl:
  \<^verbatim>\<open>
  cached = get_cached(cache_key)
  if cached:
      return jsonify(cached)
  try:
      ...fetch...
      out = ...
      set_cached(cache_key, out, ttl)
      return jsonify(out)
  except Exception as e:
      return jsonify({"error": str(e)}), 500
  \<close>
\<close>

definition cached_endpoint ::
  "env \<Rightarrow> string \<Rightarrow> report_request \<Rightarrow> (row list \<Rightarrow> json) \<Rightarrow> int \<Rightarrow> world \<Rightarrow> response \<times> world"
where
  "cached_endpoint env cache_key request_body build ttl w =
     (let (cached, c) = get_cached (lookup_time env) (cache w) cache_key;
          w0 = w\<lparr>cache := c\<rparr>;
          miss = (case fetch_report env request_body w0 of
                    (Raises e, w1) \<Rightarrow> (error_response e, w1)
                  | (Returns rows, w1) \<Rightarrow>
                      (let out = build rows
                       in case set_cached (store_time env) (cache w1) cache_key out ttl of
                            Raises e \<Rightarrow> (error_response e, w1)
                          | Returns c' \<Rightarrow> (Response out 200, w1\<lparr>cache := c'\<rparr>)))
      in case cached of
           None \<Rightarrow> miss
         | Some v \<Rightarrow> if truthy v then (Response v 200, w0) else miss)"

text \<open>\<^verbatim>\<open>request.args.get(name, default)\<close>\<close>

definition args_get :: "(string \<rightharpoonup> string) \<Rightarrow> string \<Rightarrow> string \<Rightarrow> string" where
  "args_get args name dflt = (case args name of None \<Rightarrow> dflt | Some v \<Rightarrow> v)"

text \<open>\<^verbatim>\<open>f"urls:{start_date}:{end_date}"\<close>\<close>

definition urls_cache_key :: "string \<Rightarrow> string \<Rightarrow> string" where
  "urls_cache_key start_date end_date = ''urls:'' @ start_date @ '':'' @ end_date"

text \<open>\<^verbatim>\<open>f"traffic:{start_date}:{end_date}:{limit}"\<close>\<close>

definition traffic_cache_key :: "string \<Rightarrow> string \<Rightarrow> int \<Rightarrow> string" where
  "traffic_cache_key start_date end_date limit =
     ''traffic:'' @ start_date @ '':'' @ end_date @ '':'' @ py_str limit"

definition realtime_active :: "env \<Rightarrow> world \<Rightarrow> response \<times> world" where
  "realtime_active env w =
     cached_endpoint env ''realtime-active''
       (RunRealtimeReportRequest (PROPERTY env) [] [''activeUsers''] None)
       (\<lambda>rows. JObj [(''totalActive'', JInt (realtime_active_total rows)),
                     (''fetchedAt'', JStr (fetched_at env))])
       (CACHE_TTL env) w"

definition realtime_pages :: "env \<Rightarrow> world \<Rightarrow> response \<times> world" where
  "realtime_pages env w =
     cached_endpoint env ''realtime-pages''
       (RunRealtimeReportRequest (PROPERTY env) [''pageTitle''] [''activeUsers''] (Some 50))
       (\<lambda>rows. JObj [(''rows'', JList (realtime_pages_rows rows)),
                     (''fetchedAt'', JStr (fetched_at env))])
       (CACHE_TTL env) w"

definition urls_report :: "env \<Rightarrow> (string \<rightharpoonup> string) \<Rightarrow> world \<Rightarrow> response \<times> world" where
  "urls_report env args w =
     (let start_date = args_get args ''start_date'' ''7daysAgo'';
          end_date = args_get args ''end_date'' ''today''
      in cached_endpoint env (urls_cache_key start_date end_date)
           (RunReportRequest (PROPERTY env) (start_date, end_date)
              [''pageLocation''] [''screenPageViews''] 1000)
           (\<lambda>rows. JObj [(''rows'', JList (urls_rows rows)),
                         (''rowCount'', JInt (int (length (urls_rows rows)))),
                         (''fetchedAt'', JStr (fetched_at env))])
           30 w)"

text \<open>
  In \<open>traffic_report\<close> the line \<^verbatim>\<open>limit = int(request.args.get("limit", "100"))\<close>
  stands before the lookup and outside the \<^verbatim>\<open>try\<close> block.
\<close>

definition traffic_report :: "env \<Rightarrow> (string \<rightharpoonup> string) \<Rightarrow> world \<Rightarrow> response \<times> world" where
  "traffic_report env args w =
     (let start_date = args_get args ''start_date'' ''7daysAgo'';
          end_date = args_get args ''end_date'' ''today''
      in case py_int (args_get args ''limit'' ''100'') of
           Inl e \<Rightarrow> (Unhandled e, w)
         | Inr limit \<Rightarrow>
             cached_endpoint env (traffic_cache_key start_date end_date limit)
               (RunReportRequest (PROPERTY env) (start_date, end_date)
                  [''source'', ''medium''] [''sessions''] limit)
               (\<lambda>rows. JObj [(''rows'', JList (traffic_rows rows)),
                             (''rowCount'', JInt (int (length (traffic_rows rows)))),
                             (''fetchedAt'', JStr (fetched_at env))])
               30 w)"

definition top_countries :: "env \<Rightarrow> world \<Rightarrow> response \<times> world" where
  "top_countries env w =
     cached_endpoint env ''top-countries''
       (RunRealtimeReportRequest (PROPERTY env) [''country''] [''activeUsers''] (Some 50))
       (\<lambda>rows. JObj [(''rows'', JList (top_countries_rows rows)),
                     (''fetchedAt'', JStr (fetched_at env))])
       (CACHE_TTL env) w"

text \<open>The routes of the application that serve a report.\<close>

datatype endpoint = RealtimeActive | RealtimePages | Urls | Traffic | TopCountries

definition app_route ::
  "env \<Rightarrow> endpoint \<Rightarrow> (string \<rightharpoonup> string) \<Rightarrow> world \<Rightarrow> response \<times> world" where
  "app_route env ep args w =
     (case ep of
        RealtimeActive \<Rightarrow> realtime_active env w
      | RealtimePages \<Rightarrow> realtime_pages env w
      | Urls \<Rightarrow> urls_report env args w
      | Traffic \<Rightarrow> traffic_report env args w
      | TopCountries \<Rightarrow> top_countries env w)"

text \<open>
  The cache key (fingerprint) a handler computes for a request, when it gets that far.
\<close>

definition fingerprint :: "endpoint \<Rightarrow> (string \<rightharpoonup> string) \<Rightarrow> exn + string" where
  "fingerprint ep args =
     (case ep of
        RealtimeActive \<Rightarrow> Inr ''realtime-active''
      | RealtimePages \<Rightarrow> Inr ''realtime-pages''
      | Urls \<Rightarrow>
          Inr (urls_cache_key (args_get args ''start_date'' ''7daysAgo'')
                 (args_get args ''end_date'' ''today''))
      | Traffic \<Rightarrow>
          (case py_int (args_get args ''limit'' ''100'') of
             Inl e \<Rightarrow> Inl e
           | Inr limit \<Rightarrow>
               Inr (traffic_cache_key (args_get args ''start_date'' ''7daysAgo'')
                      (args_get args ''end_date'' ''today'') limit))
      | TopCountries \<Rightarrow> Inr ''top-countries'')"

text \<open>The request a handler sends upstream on a miss.\<close>

definition request_body_of ::
  "env \<Rightarrow> endpoint \<Rightarrow> (string \<rightharpoonup> string) \<Rightarrow> exn + report_request" where
  "request_body_of env ep args =
     (case ep of
        RealtimeActive \<Rightarrow>
          Inr (RunRealtimeReportRequest (PROPERTY env) [] [''activeUsers''] None)
      | RealtimePages \<Rightarrow>
          Inr (RunRealtimeReportRequest (PROPERTY env) [''pageTitle''] [''activeUsers''] (Some 50))
      | Urls \<Rightarrow>
          Inr (RunReportRequest (PROPERTY env)
                 (args_get args ''start_date'' ''7daysAgo'', args_get args ''end_date'' ''today'')
                 [''pageLocation''] [''screenPageViews''] 1000)
      | Traffic \<Rightarrow>
          (case py_int (args_get args ''limit'' ''100'') of
             Inl e \<Rightarrow> Inl e
           | Inr limit \<Rightarrow>
               Inr (RunReportRequest (PROPERTY env)
                      (args_get args ''start_date'' ''7daysAgo'',
                       args_get args ''end_date'' ''today'')
                      [''source'', ''medium''] [''sessions''] limit))
      | TopCountries \<Rightarrow>
          Inr (RunRealtimeReportRequest (PROPERTY env) [''country''] [''activeUsers''] (Some 50)))"

text \<open>
  The fetch of a request fails with a message: the client cannot be built, or its call
  raises.
\<close>

definition fetch_fails :: "env \<Rightarrow> report_request \<Rightarrow> string \<Rightarrow> bool" where
  "fetch_fails env request_body msg =
     (case get_ga_client env of
        Raises e \<Rightarrow> e = msg
      | Returns client \<Rightarrow> client request_body = Raises msg)"

text \<open>The lookup of a handler misses: nothing comes back that Python takes for true.\<close>

definition lookup_misses :: "env \<Rightarrow> world \<Rightarrow> string \<Rightarrow> bool" where
  "lookup_misses env w cache_key =
     (case fst (get_cached (lookup_time env) (cache w) cache_key) of
        None \<Rightarrow> True
      | Some v \<Rightarrow> \<not> truthy v)"

text \<open>
  The states the server can be in: it starts with an empty cache, and every request to
  a report route, in any environment, takes it to the next state.
\<close>

inductive reachable :: "world \<Rightarrow> bool" where
  start: "reachable \<lparr>cache = Map.empty, upstream_calls = []\<rparr>"
| request: "reachable w \<Longrightarrow> reachable (snd (app_route env ep args w))"

text \<open>Every payload in the cache is one that Python takes for true.\<close>

definition cache_truthy :: "(string, json) cache \<Rightarrow> bool" where
  "cache_truthy c = (\<forall>k e v. c k = Some (e, v) \<longrightarrow> truthy v)"

section \<open>Cache expiry\<close>

lemma round_double_5: "round_double 5 = Finite 5"
  by code_simp

lemma round_double_105: "round_double 105 = Finite 105"
  by code_simp

lemma round_double_106: "round_double 106 = Finite 106"
  by code_simp

lemma round_double_112: "round_double 112 = Finite 112"
  by code_simp

lemma set_cached_exact:
  assumes "binary64 (of_int T)" "binary64 (t0 + of_int T)"
  shows "set_cached t0 c key v T = Returns (c(key \<mapsto> (Finite (t0 + of_int T), v)))"
  using assms by (simp add: set_cached_def binary64_def float_of_int_def float_add_def)

text \<open>
  Without exactness the stored expiry is the rounded sum, which can lie above
  \<open>t0 + T\<close>: stored at \<open>2^53\<close> with a ttl of 3, the entry expires at \<open>2^53 + 4\<close>
  and is still served at that time, 4 seconds after the store.
\<close>

lemma set_cached_rounds_up:
  "set_cached (2 ^ 53) (Map.empty :: (string, int) cache) ''k'' 7 3
     = Returns [''k'' \<mapsto> (Finite (2 ^ 53 + 4), 7)]
   \<and> fst (get_cached (2 ^ 53 + 4) [''k'' \<mapsto> (Finite (2 ^ 53 + 4), 7 :: int)] ''k'') = Some 7"
proof -
  have a: "round_double 3 = Finite 3" by code_simp
  have b: "round_double 9007199254740995 = Finite 9007199254740996" by code_simp
  show ?thesis
    by (simp add: set_cached_def float_of_int_def float_add_def a b get_cached_def)
qed

text \<open>
  Claim C1, at the boundary. The claim lets a read at \<open>now - t0 \<ge> T\<close> return absent. An
  entry stored at time 100 with a ttl of 5 seconds expires at 105; a read at exactly 105
  has \<open>now - t0 = T\<close>, the test \<^verbatim>\<open>time.time() > expiry\<close> is false, and the stored value
  is returned.
\<close>

theorem cache_expiry_boundary_counterexample:
  "(105::rat) - 100 \<ge> of_int 5
   \<and> set_cached 100 (Map.empty :: (string, int) cache) ''k'' 7 5
       = Returns [''k'' \<mapsto> (Finite 105, 7)]
   \<and> fst (get_cached 105 [''k'' \<mapsto> (Finite 105, 7 :: int)] ''k'') = Some 7"
  by (simp add: get_cached_def set_cached_def float_of_int_def float_add_def round_double_5
      round_double_105)

text \<open>
  Claim C1, amended: the comparison is strict, and the expiry is a float sum. For every
  key and value stored by \<open>set_cached\<close> with ttl \<open>T\<close> at time \<open>t0\<close>, where \<open>T\<close> and
  \<open>t0 + T\<close> are binary64 values (so that the sum is exact), the store succeeds with
  expiry \<open>t0 + T\<close>; a read at a time \<open>now\<close> with \<open>now - t0 \<le> T\<close> returns the stored
  value and leaves the dictionary as it is; a read at \<open>now - t0 > T\<close> returns absent and
  drops the entry; and after such an expired read, a \<open>set_cached\<close> of a new value under
  the same key at time \<open>t1\<close> with ttl \<open>T'\<close>, again with \<open>T'\<close> and \<open>t1 + T'\<close> binary64
  values, succeeds and is read back by every read at a time \<open>t2\<close> with \<open>t2 - t1 \<le> T'\<close>.
\<close>

theorem cache_expiry:
  fixes c :: "('k, 'v) cache" and T T' :: int
  assumes "binary64 (of_int T)" "binary64 (t0 + of_int T)"
  shows "set_cached t0 c key v T = Returns (c(key \<mapsto> (Finite (t0 + of_int T), v)))
       \<and> (now - t0 \<le> of_int T \<longrightarrow>
            get_cached now (c(key \<mapsto> (Finite (t0 + of_int T), v))) key
              = (Some v, c(key \<mapsto> (Finite (t0 + of_int T), v))))
       \<and> (now - t0 > of_int T \<longrightarrow>
            get_cached now (c(key \<mapsto> (Finite (t0 + of_int T), v))) key
              = (None, c(key := None))
          \<and> (binary64 (of_int T') \<and> binary64 (t1 + of_int T') \<and> t2 - t1 \<le> of_int T' \<longrightarrow>
               set_cached t1 (c(key := None)) key v' T'
                 = Returns (c(key \<mapsto> (Finite (t1 + of_int T'), v')))
               \<and> fst (get_cached t2 (c(key \<mapsto> (Finite (t1 + of_int T'), v'))) key) = Some v'))"
  using set_cached_exact [OF assms, of c key v]
        set_cached_exact [of T' t1 "c(key := None)" key v']
  by (auto simp: get_cached_def)

theorem cache_expiry_witness:
  "set_cached 100 (Map.empty :: (string, int) cache) ''k'' 7 5
     = Returns [''k'' \<mapsto> (Finite 105, 7)]
   \<and> get_cached 103 [''k'' \<mapsto> (Finite 105, 7 :: int)] ''k''
     = (Some 7, [''k'' \<mapsto> (Finite 105, 7)])
   \<and> get_cached 106 [''k'' \<mapsto> (Finite 105, 7 :: int)] ''k'' = (None, Map.empty)
   \<and> set_cached 107 (Map.empty :: (string, int) cache) ''k'' 8 5
     = Returns [''k'' \<mapsto> (Finite 112, 8)]
   \<and> fst (get_cached 110 [''k'' \<mapsto> (Finite 112, 8 :: int)] ''k'') = Some 8"
proof -
  have b5: "binary64 (of_int 5)" by (simp add: binary64_def round_double_5)
  have b105: "binary64 (100 + of_int 5)" by (simp add: binary64_def round_double_105)
  have b112: "binary64 (107 + of_int 5)" by (simp add: binary64_def round_double_112)
  note early = cache_expiry [OF b5 b105, of "Map.empty :: (string, int) cache" "''k''" 7 103]
  note late = cache_expiry [OF b5 b105, of "Map.empty :: (string, int) cache" "''k''" 7 106 5 107 110 8]
  have stored: "set_cached 100 (Map.empty :: (string, int) cache) ''k'' 7 5
     = Returns [''k'' \<mapsto> (Finite 105, 7)]"
    using early [THEN conjunct1] by simp
  have fresh: "get_cached 103 [''k'' \<mapsto> (Finite 105, 7 :: int)] ''k''
     = (Some 7, [''k'' \<mapsto> (Finite 105, 7)])"
    using early [THEN conjunct2, THEN conjunct1] by simp
  have gone: "(106::rat) - 100 > of_int 5" by simp
  note expired = late [THEN conjunct2, THEN conjunct2, THEN mp, OF gone]
  have stale: "get_cached 106 [''k'' \<mapsto> (Finite 105, 7 :: int)] ''k'' = (None, Map.empty)"
    using expired [THEN conjunct1] by simp
  have soon: "binary64 (of_int 5) \<and> binary64 (107 + of_int 5) \<and> (110::rat) - 107 \<le> of_int 5"
    using b5 b112 by simp
  note again = expired [THEN conjunct2, THEN mp, OF soon]
  have restored: "set_cached 107 (Map.empty :: (string, int) cache) ''k'' 8 5
     = Returns [''k'' \<mapsto> (Finite 112, 8)]"
    using again [THEN conjunct1] by simp
  have reread: "fst (get_cached 110 [''k'' \<mapsto> (Finite 112, 8 :: int)] ''k'') = Some 8"
    using again [THEN conjunct2] by simp
  from stored fresh stale restored reread show ?thesis by blast
qed

section \<open>Cache keys\<close>

lemma nat_of_digits_snoc: "nat_of_digits (ds @ [c]) = 10 * nat_of_digits ds + digit_value c"
  by (simp add: nat_of_digits_def)

lemma digit_value_char_of: "n < 10 \<Longrightarrow> digit_value (char_of (48 + n)) = n"
  by (simp add: digit_value_def)

lemma nat_of_digits_of: "nat_of_digits (digits_of n) = n"
proof (induction n rule: digits_of.induct)
  case (1 n)
  show ?case
  proof (cases "n < 10")
    case True
    then show ?thesis
      by (simp add: digits_of.simps [of n] nat_of_digits_def digit_value_char_of)
  next
    case False
    with 1 have "nat_of_digits (digits_of (n div 10)) = n div 10" by simp
    with False show ?thesis
      by (simp add: digits_of.simps [of n] nat_of_digits_snoc digit_value_char_of)
  qed
qed

lemma is_digit_char_of: "(n::nat) < 10 \<Longrightarrow> is_digit (char_of (48 + n))"
  by (simp add: is_digit_def)

lemma digits_of_all_digits: "list_all is_digit (digits_of n)"
proof (induction n rule: digits_of.induct)
  case (1 n)
  show ?case
  proof (cases "n < 10")
    case True
    then show ?thesis by (simp add: digits_of.simps [of n] is_digit_char_of)
  next
    case False
    with 1 show ?thesis by (simp add: digits_of.simps [of n] is_digit_char_of)
  qed
qed

lemma digits_of_inj: "digits_of n = digits_of m \<Longrightarrow> n = m"
  by (metis nat_of_digits_of)

lemma digits_of_head: "\<exists>c cs. digits_of n = c # cs \<and> is_digit c"
  using digits_of_all_digits [of n]
  by (cases "digits_of n") (simp_all add: digits_of.simps [of n] split: if_splits)

lemma py_str_inj: "py_str i = py_str j \<Longrightarrow> i = j"
proof -
  have nd: "\<not> is_digit (CHR ''-'')" by (simp add: is_digit_def)
  assume eq: "py_str i = py_str j"
  consider "i < 0" "j < 0" | "i < 0" "\<not> j < 0" | "\<not> i < 0" "j < 0" | "\<not> i < 0" "\<not> j < 0"
    by blast
  then show ?thesis
  proof cases
    case 1
    with eq have "nat (- i) = nat (- j)" by (auto simp: py_str_def dest: digits_of_inj)
    with 1 show ?thesis by simp
  next
    case 2
    with eq digits_of_head [of "nat j"] nd show ?thesis by (auto simp: py_str_def)
  next
    case 3
    with eq digits_of_head [of "nat i"] nd show ?thesis by (auto simp: py_str_def)
  next
    case 4
    with eq have "nat i = nat j" by (auto simp: py_str_def dest: digits_of_inj)
    with 4 show ?thesis by simp
  qed
qed

lemma py_str_no_colon: "CHR '':'' \<notin> set (py_str i)"
proof -
  have "\<not> is_digit (CHR '':'')" by (simp add: is_digit_def)
  then have "CHR '':'' \<notin> set (digits_of n)" for n
    using digits_of_all_digits [of n] by (auto simp: list_all_iff)
  then show ?thesis by (simp add: py_str_def)
qed

lemma split_at_first:
  "c \<notin> set x \<Longrightarrow> c \<notin> set y \<Longrightarrow> x @ c # u = y @ c # v \<Longrightarrow> x = y \<and> u = v"
proof (induction x arbitrary: y)
  case Nil
  then show ?case by (cases y) auto
next
  case (Cons a x)
  then show ?case by (cases y) auto
qed

lemma split_at_last:
  assumes "c \<notin> set u" "c \<notin> set v" "x @ c # u = y @ c # v"
  shows "x = y \<and> u = v"
proof -
  from assms(3) have "rev u @ c # rev x = rev v @ c # rev y"
    by (metis rev_append rev.simps(2) append.assoc append_Cons append_Nil)
  with assms(1,2) split_at_first [of c "rev u" "rev v" "rev x" "rev y"] show ?thesis by simp
qed

lemma traffic_cache_key_inj:
  assumes "CHR '':'' \<notin> set s1" "CHR '':'' \<notin> set s2"
    and "traffic_cache_key s1 e1 l1 = traffic_cache_key s2 e2 l2"
  shows "s1 = s2 \<and> e1 = e2 \<and> l1 = l2"
proof -
  from assms(3) have a: "s1 @ CHR '':'' # (e1 @ CHR '':'' # py_str l1) = s2 @ CHR '':'' # (e2 @ CHR '':'' # py_str l2)"
    by (simp add: traffic_cache_key_def)
  from split_at_first [OF assms(1,2) a] have s: "s1 = s2" and b: "e1 @ CHR '':'' # py_str l1 = e2 @ CHR '':'' # py_str l2"
    by simp_all
  from split_at_last [OF py_str_no_colon py_str_no_colon b] py_str_inj s show ?thesis by blast
qed

lemma traffic_cache_key_one:
  "(traffic_cache_key s1 e l = traffic_cache_key s2 e l) = (s1 = s2)"
  "(traffic_cache_key s e1 l = traffic_cache_key s e2 l) = (e1 = e2)"
  "(traffic_cache_key s e l1 = traffic_cache_key s e l2) = (l1 = l2)"
  by (auto simp: traffic_cache_key_def dest: py_str_inj)

text \<open>
  Claim C2, where it fails. The f-string joins the three parameters with colons and
  escapes nothing, so a colon inside a date moves the boundary between start and end
  date: the requests \<open>start_date=a:b&end_date=c\<close> and \<open>start_date=a&end_date=b:c\<close>
  differ in both dates and get the same key.
\<close>

theorem traffic_cache_key_collision_counterexample:
  "(''a:b'', ''c'', 100 :: int) \<noteq> (''a'', ''b:c'', 100)
   \<and> traffic_cache_key ''a:b'' ''c'' 100 = traffic_cache_key ''a'' ''b:c'' 100"
  by (simp add: traffic_cache_key_def)

text \<open>
  Claim C2, amended. The key of the traffic endpoint is a function of
  (start date, end date, limit), so equal parameters give equal keys. Two parameter
  tuples that differ in exactly one of start date, end date and limit get different
  keys; and two tuples that differ in any way get different keys when neither start date
  contains a colon.
\<close>

theorem traffic_cache_key_fingerprint:
  "(s1 = s2 \<and> e1 = e2 \<and> l1 = l2 \<longrightarrow>
      traffic_cache_key s1 e1 l1 = traffic_cache_key s2 e2 l2)
   \<and> (s1 \<noteq> s2 \<longrightarrow> traffic_cache_key s1 e1 l1 \<noteq> traffic_cache_key s2 e1 l1)
   \<and> (e1 \<noteq> e2 \<longrightarrow> traffic_cache_key s1 e1 l1 \<noteq> traffic_cache_key s1 e2 l1)
   \<and> (l1 \<noteq> l2 \<longrightarrow> traffic_cache_key s1 e1 l1 \<noteq> traffic_cache_key s1 e1 l2)
   \<and> (CHR '':'' \<notin> set s1 \<and> CHR '':'' \<notin> set s2 \<and> (s1, e1, l1) \<noteq> (s2, e2, l2) \<longrightarrow>
        traffic_cache_key s1 e1 l1 \<noteq> traffic_cache_key s2 e2 l2)"
  using traffic_cache_key_inj [of s1 s2 e1 l1 e2 l2]
  by (auto simp: traffic_cache_key_one)

theorem traffic_cache_key_fingerprint_witness:
  "traffic_cache_key ''7daysAgo'' ''today'' 100 = traffic_cache_key ''7daysAgo'' ''today'' 100
   \<and> traffic_cache_key ''7daysAgo'' ''today'' 100 \<noteq> traffic_cache_key ''30daysAgo'' ''today'' 100
   \<and> traffic_cache_key ''7daysAgo'' ''today'' 100 \<noteq> traffic_cache_key ''7daysAgo'' ''yesterday'' 100
   \<and> traffic_cache_key ''7daysAgo'' ''today'' 100 \<noteq> traffic_cache_key ''7daysAgo'' ''today'' 50
   \<and> traffic_cache_key ''7daysAgo'' ''today'' 100 \<noteq> traffic_cache_key ''30daysAgo'' ''yesterday'' 50"
  using traffic_cache_key_fingerprint [of "''7daysAgo''" "''7daysAgo''" "''today''" "''today''" 100 100]
        traffic_cache_key_fingerprint [of "''7daysAgo''" "''30daysAgo''" "''today''" "''yesterday''" 100 50]
  by simp

section \<open>Normalization\<close>

lemma coerce_metric_Nil: "coerce_metric [] = 0"
  by (simp add: coerce_metric_def)

lemma coerce_metric_Cons:
  "coerce_metric (v # vs) = (case int_float v of Inl e \<Rightarrow> 0 | Inr n \<Rightarrow> n)"
  by (simp add: coerce_metric_def)

lemma int_float_12_9: "int_float (PyStr ''12.9'') = Inr 12"
  by code_simp

lemma int_float_abc: "int_float (PyStr ''abc'') = Inl ValueError"
  by code_simp

lemma int_float_5: "int_float (PyStr ''5'') = Inr 5"
  by code_simp

lemma int_float_3_0: "int_float (PyStr ''3.0'') = Inr 3"
  by code_simp

lemma int_float_2_5: "int_float (PyStr ''2.5'') = Inr 2"
  by code_simp

lemma py_float_minus_3: "py_float ''-3'' = Inr (Finite (- 3))"
  by code_simp

text \<open>
  Claim C3. The coercion of a metric is total: with no metric value it is 0, and with
  one it is the integer that \<^verbatim>\<open>int(float(v))\<close> returns, or 0 for each exception that
  the expression raises. A value of \<^verbatim>\<open>None\<close> gives 0, \<^verbatim>\<open>"12.9"\<close> gives 12,
  \<^verbatim>\<open>"abc"\<close> gives 0 and \<^verbatim>\<open>"5"\<close> gives 5.
\<close>

theorem coerce_metric_total:
  "coerce_metric [] = 0
   \<and> coerce_metric (v # vs) = (case int_float v of Inl e \<Rightarrow> 0 | Inr n \<Rightarrow> n)
   \<and> coerce_metric (PyNone # vs) = 0
   \<and> coerce_metric (PyStr ''12.9'' # vs) = 12
   \<and> coerce_metric (PyStr ''abc'' # vs) = 0
   \<and> coerce_metric (PyStr ''5'' # vs) = 5"
  by (simp add: coerce_metric_Nil coerce_metric_Cons int_float_12_9 int_float_abc int_float_5)
     (simp add: int_float_def)

lemma py_trunc_negative: "py_trunc x = Inr n \<Longrightarrow> (n < 0) = (\<exists>q. x = Finite q \<and> q \<le> - 1)"
proof (cases x)
  case (Finite q)
  assume "py_trunc x = Inr n"
  with Finite have n: "n = (if q \<ge> 0 then \<lfloor>q\<rfloor> else \<lceil>q\<rceil>)" by (simp add: py_trunc_def)
  have "(\<lceil>q\<rceil> < 0) = (q \<le> - 1)" by (simp add: ceiling_less_iff)
  with n Finite show ?thesis by auto
qed (simp_all add: py_trunc_def)

lemma sum_rows_eq:
  "sum_rows rows t = t + sum_list (map (\<lambda>r. coerce_metric (metric_values r)) rows)"
  by (induction rows arbitrary: t)
     (auto simp: coerce_metric_def split: list.splits sum.splits)

lemma realtime_active_total_eq:
  "realtime_active_total rows = sum_list (map (\<lambda>r. coerce_metric (metric_values r)) rows)"
  by (simp add: realtime_active_total_def sum_rows_eq)

text \<open>
  Claim C4, where it fails. The text \<^verbatim>\<open>"-3"\<close> is a number to \<^verbatim>\<open>float\<close>, nothing
  clamps the integer, and the row's metric and the total of realtime-active are -3.
\<close>

theorem coerce_metric_negative_counterexample:
  "coerce_metric [PyStr ''-3''] = - 3
   \<and> realtime_active_total [\<lparr>dimension_values = [], metric_values = [PyStr ''-3'']\<rparr>] = - 3"
  by (simp add: realtime_active_total_eq coerce_metric_Cons int_float_def py_float_minus_3
      py_trunc_def)

text \<open>
  Claim C4, amended. The result of metric coercion is an integer, and it is negative
  exactly when the first metric value is a text that \<^verbatim>\<open>float\<close> reads as a finite number
  of at most -1; for a missing value, \<^verbatim>\<open>None\<close>, a text that is no number, an infinity,
  a NaN and a number above -1 it is at least 0. The total of realtime-active is at least
  0 when the coerced metric of every row is.
\<close>

theorem coerce_metric_sign:
  "(coerce_metric mvs < 0) =
     (\<exists>s vs x. mvs = PyStr s # vs \<and> py_float s = Inr (Finite x) \<and> x \<le> - 1)
   \<and> ((\<forall>r \<in> set rows. 0 \<le> coerce_metric (metric_values r)) \<longrightarrow>
        0 \<le> realtime_active_total rows)"
proof
  show "(coerce_metric mvs < 0) =
     (\<exists>s vs x. mvs = PyStr s # vs \<and> py_float s = Inr (Finite x) \<and> x \<le> - 1)"
  proof (cases mvs)
    case Nil
    then show ?thesis by (simp add: coerce_metric_def)
  next
    case (Cons v vs)
    show ?thesis
    proof (cases v)
      case PyNone
      with Cons show ?thesis by (simp add: coerce_metric_def int_float_def)
    next
      case (PyStr s)
      show ?thesis
      proof (cases "py_float s")
        case (Inl e)
        with Cons PyStr show ?thesis by (simp add: coerce_metric_def int_float_def)
      next
        case (Inr x)
        show ?thesis
        proof (cases "py_trunc x")
          case (Inl e)
          with Cons PyStr Inr show ?thesis
            by (cases x) (simp_all add: coerce_metric_def int_float_def py_trunc_def)
        next
          case r: (Inr n)
          from py_trunc_negative [OF r] Cons PyStr Inr r show ?thesis
            by (simp add: coerce_metric_def int_float_def)
        qed
      qed
    qed
  qed
  show "(\<forall>r \<in> set rows. 0 \<le> coerce_metric (metric_values r)) \<longrightarrow>
        0 \<le> realtime_active_total rows"
    by (auto simp: realtime_active_total_eq intro!: sum_list_nonneg)
qed

theorem coerce_metric_sign_witness:
  "coerce_metric [PyStr ''-3''] < 0
   \<and> 0 \<le> realtime_active_total [\<lparr>dimension_values = [], metric_values = [PyStr ''5'']\<rparr>]"
proof
  from py_float_minus_3
  have "\<exists>s vs x. [PyStr ''-3''] = PyStr s # vs \<and> py_float s = Inr (Finite x) \<and> x \<le> - 1"
    by auto
  with coerce_metric_sign [of "[PyStr ''-3'']" "[]"] show "coerce_metric [PyStr ''-3''] < 0"
    by blast
  have "\<forall>r \<in> set [\<lparr>dimension_values = [], metric_values = [PyStr ''5'']\<rparr>].
          0 \<le> coerce_metric (metric_values r)"
    by (simp add: coerce_metric_Cons int_float_5)
  with coerce_metric_sign [of "[]" "[\<lparr>dimension_values = [], metric_values = [PyStr ''5'']\<rparr>]"]
  show "0 \<le> realtime_active_total [\<lparr>dimension_values = [], metric_values = [PyStr ''5'']\<rparr>]"
    by blast
qed

text \<open>
  Claim C5. The total of realtime-active is the sum, over all raw rows, of the coerced
  first metric value, a missing or unparseable value counting 0: three rows with the
  values \<^verbatim>\<open>"3.0"\<close>, \<^verbatim>\<open>"2.5"\<close> and none give 5, and no rows give 0.
\<close>

theorem realtime_active_total_sum:
  "realtime_active_total rows = sum_list (map (\<lambda>r. coerce_metric (metric_values r)) rows)
   \<and> realtime_active_total
        [\<lparr>dimension_values = [], metric_values = [PyStr ''3.0'']\<rparr>,
         \<lparr>dimension_values = [], metric_values = [PyStr ''2.5'']\<rparr>,
         \<lparr>dimension_values = [], metric_values = []\<rparr>] = 5
   \<and> realtime_active_total [] = 0"
  by (simp add: realtime_active_total_eq coerce_metric_Nil coerce_metric_Cons int_float_3_0
      int_float_2_5)


lemma append_rows_eq: "append_rows f rows acc = acc @ map f rows"
  by (induction rows arbitrary: acc) simp_all

text \<open>
  Claim C7. For each of the four row-shaped endpoints and every raw result, the rows of
  the payload are the raw rows, each normalized, in the order of the input: as many as
  there are raw rows, none dropped and none moved. Sixty raw rows give sixty rows.
\<close>

theorem row_endpoints_keep_rows:
  "realtime_pages_rows rows = map realtime_pages_row rows
   \<and> urls_rows rows = map urls_row rows
   \<and> traffic_rows rows = map traffic_row rows
   \<and> top_countries_rows rows = map top_countries_row rows
   \<and> length (realtime_pages_rows rows) = length rows
   \<and> length (urls_rows rows) = length rows
   \<and> length (traffic_rows rows) = length rows
   \<and> length (top_countries_rows rows) = length rows
   \<and> length (realtime_pages_rows (replicate 60 r)) = 60"
  by (simp add: realtime_pages_rows_def urls_rows_def traffic_rows_def top_countries_rows_def
      append_rows_eq)

section \<open>The handlers\<close>

lemma cached_endpoint_hit:
  assumes "cache w key = Some (expiry, v)" "\<not> float_less expiry (Finite (lookup_time env))"
    and "truthy v"
  shows "cached_endpoint env key rq build ttl w = (Response v 200, w)"
  using assms by (simp add: cached_endpoint_def get_cached_def)

lemma cached_endpoint_fail:
  assumes "lookup_misses env w key" "fetch_fails env rq msg"
  shows "cached_endpoint env key rq build ttl w
           = (error_response msg,
              w\<lparr>cache := snd (get_cached (lookup_time env) (cache w) key),
                upstream_calls := upstream_calls w @
                  (case get_ga_client env of Raises e \<Rightarrow> [] | Returns client \<Rightarrow> [rq])\<rparr>)"
  using assms
  by (auto simp: cached_endpoint_def lookup_misses_def fetch_fails_def fetch_report_def
      split: prod.splits option.splits outcome.splits)

lemma get_cached_map_le: "snd (get_cached now c key) \<subseteq>\<^sub>m c"
  by (auto simp: get_cached_def map_le_def split: option.splits)

lemma float_less_later: "float_less e (Finite now) \<Longrightarrow> now \<le> t \<Longrightarrow> float_less e (Finite t)"
  by (cases e) auto

lemma get_cached_after_lookup:
  "now \<le> t \<Longrightarrow> fst (get_cached t (snd (get_cached now c key)) k) = fst (get_cached t c k)"
  by (auto simp: get_cached_def split: option.splits dest: float_less_later)

lemma get_cached_nothing_stale:
  "(\<forall>expiry v. c key = Some (expiry, v) \<longrightarrow> \<not> float_less expiry (Finite now)) \<Longrightarrow>
   snd (get_cached now c key) = c"
  by (auto simp: get_cached_def split: option.splits)

lemma cached_endpoint_truthy:
  assumes "\<And>rows. truthy (build rows)" "cache_truthy (cache w)"
  shows "cache_truthy (cache (snd (cached_endpoint env key rq build ttl w)))"
  using assms
  by (auto simp: cached_endpoint_def cache_truthy_def get_cached_def set_cached_def
      fetch_report_def Let_def split: prod.splits option.splits outcome.splits if_splits
      sum.splits)

lemma app_route_frame:
  assumes "fingerprint ep args = Inr key"
  shows "\<exists>rq build ttl. request_body_of env ep args = Inr rq \<and> (\<forall>rows. truthy (build rows))
           \<and> (\<forall>w. app_route env ep args w = cached_endpoint env key rq build ttl w)"
proof (cases ep)
  case RealtimeActive
  with assms show ?thesis
    by (auto simp: fingerprint_def request_body_of_def app_route_def realtime_active_def
        intro!: exI)
next
  case RealtimePages
  with assms show ?thesis
    by (auto simp: fingerprint_def request_body_of_def app_route_def realtime_pages_def
        intro!: exI)
next
  case Urls
  with assms show ?thesis
    by (auto simp: fingerprint_def request_body_of_def app_route_def urls_report_def Let_def
        intro!: exI)
next
  case Traffic
  with assms show ?thesis
    by (auto simp: fingerprint_def request_body_of_def app_route_def traffic_report_def Let_def
        split: sum.splits intro!: exI)
next
  case TopCountries
  with assms show ?thesis
    by (auto simp: fingerprint_def request_body_of_def app_route_def top_countries_def
        intro!: exI)
qed

lemma app_route_no_key:
  assumes "fingerprint ep args = Inl e"
  shows "app_route env ep args w = (Unhandled e, w)"
  using assms
  by (cases ep)
     (auto simp: fingerprint_def app_route_def traffic_report_def Let_def split: sum.splits)

lemma app_route_truthy:
  assumes "cache_truthy (cache w)"
  shows "cache_truthy (cache (snd (app_route env ep args w)))"
proof (cases "fingerprint ep args")
  case (Inl e)
  with assms show ?thesis by (simp add: app_route_no_key)
next
  case (Inr key)
  from app_route_frame [OF Inr, of env] obtain rq build ttl
    where "\<And>rows. truthy (build rows)"
      and "app_route env ep args w = cached_endpoint env key rq build ttl w"
    by blast
  with assms show ?thesis by (simp add: cached_endpoint_truthy)
qed

lemma reachable_truthy: "reachable w \<Longrightarrow> cache_truthy (cache w)"
proof (induction rule: reachable.induct)
  case start
  show ?case by (simp add: cache_truthy_def)
next
  case (request w env ep args)
  then show ?case by (simp add: app_route_truthy)
qed

text \<open>
  Claim C8. In every state the server can reach and for every report endpoint, if the
  cache holds an entry for the fingerprint of the request that has not expired at the
  time of the lookup, the handler answers with exactly the stored payload; the state is
  the same afterwards, so nothing is fetched: no call is added to the upstream calls.
\<close>

theorem cache_hit_skips_fetch:
  assumes "reachable w" "fingerprint ep args = Inr key"
    and "cache w key = Some (expiry, payload)"
    and "\<not> float_less expiry (Finite (lookup_time env))"
  shows "app_route env ep args w = (Response payload 200, w)"
proof -
  from reachable_truthy [OF assms(1)] assms(3) have "truthy payload"
    by (auto simp: cache_truthy_def)
  with app_route_frame [OF assms(2), of env] assms(3,4) show ?thesis
    by (auto simp: cached_endpoint_hit)
qed


theorem cache_hit_skips_fetch_witness:
  "app_route
     \<lparr>PROPERTY = ''properties/1'', CACHE_TTL = 5, lookup_time = 103,
      get_ga_client = Raises ''offline'', fetched_at = ''2024-01-01T00:00:03Z'',
      store_time = 103\<rparr>
     RealtimeActive Map.empty
     \<lparr>cache = [''realtime-active'' \<mapsto>
                 (Finite 106, JObj [(''totalActive'', JInt 0),
                             (''fetchedAt'', JStr ''2024-01-01T00:00:00Z'')])],
      upstream_calls = [RunRealtimeReportRequest ''properties/1'' [] [''activeUsers''] None]\<rparr>
   = (Response (JObj [(''totalActive'', JInt 0), (''fetchedAt'', JStr ''2024-01-01T00:00:00Z'')])
        200,
      \<lparr>cache = [''realtime-active'' \<mapsto>
                 (Finite 106, JObj [(''totalActive'', JInt 0),
                             (''fetchedAt'', JStr ''2024-01-01T00:00:00Z'')])],
       upstream_calls = [RunRealtimeReportRequest ''properties/1'' [] [''activeUsers''] None]\<rparr>)"
proof -
  let ?env0 = "\<lparr>PROPERTY = ''properties/1'', CACHE_TTL = 5, lookup_time = 100,
      get_ga_client = Returns (\<lambda>request_body. Returns []),
      fetched_at = ''2024-01-01T00:00:00Z'', store_time = 101\<rparr>"
  let ?w1 = "\<lparr>cache = [''realtime-active'' \<mapsto>
                 (Finite 106, JObj [(''totalActive'', JInt 0),
                             (''fetchedAt'', JStr ''2024-01-01T00:00:00Z'')])],
      upstream_calls = [RunRealtimeReportRequest ''properties/1'' [] [''activeUsers''] None]\<rparr>"
  have "snd (app_route ?env0 RealtimeActive Map.empty \<lparr>cache = Map.empty, upstream_calls = []\<rparr>)
          = ?w1"
    by (simp add: app_route_def realtime_active_def cached_endpoint_def get_cached_def
        fetch_report_def set_cached_def realtime_active_total_def Let_def float_of_int_def
        float_add_def round_double_5 round_double_106)
  with reachable.request [OF reachable.start, of ?env0 RealtimeActive Map.empty]
  have reach: "reachable ?w1" by simp
  show ?thesis
    by (rule cache_hit_skips_fetch [OF reach, where key = "''realtime-active''"
          and expiry = "Finite 106"])
       (simp_all add: fingerprint_def)
qed

text \<open>
  Claim C9, where it fails. The claim has the cache state left unchanged. The lookup
  that comes before the fetch drops an expired entry of the fingerprint: with such an
  entry in the cache and a fetch that fails, the answer is the error payload and the
  cache after the request is not the cache before it.
\<close>

theorem fetch_failure_drops_stale_counterexample:
  "fst (app_route
          \<lparr>PROPERTY = ''properties/1'', CACHE_TTL = 5, lookup_time = 100,
           get_ga_client = Returns (\<lambda>request_body. Raises ''429 quota exhausted''),
           fetched_at = ''2024-01-01T00:00:00Z'', store_time = 101\<rparr>
          Urls Map.empty
          \<lparr>cache = [''urls:7daysAgo:today'' \<mapsto> (Finite 50, JObj [(''rows'', JList [])])],
           upstream_calls = []\<rparr>)
     = Response (JObj [(''error'', JStr ''429 quota exhausted'')]) 500
   \<and> cache (snd (app_route
          \<lparr>PROPERTY = ''properties/1'', CACHE_TTL = 5, lookup_time = 100,
           get_ga_client = Returns (\<lambda>request_body. Raises ''429 quota exhausted''),
           fetched_at = ''2024-01-01T00:00:00Z'', store_time = 101\<rparr>
          Urls Map.empty
          \<lparr>cache = [''urls:7daysAgo:today'' \<mapsto> (Finite 50, JObj [(''rows'', JList [])])],
           upstream_calls = []\<rparr>))
     \<noteq> [''urls:7daysAgo:today'' \<mapsto> (Finite 50, JObj [(''rows'', JList [])])]"
proof -
  let ?env = "\<lparr>PROPERTY = ''properties/1'', CACHE_TTL = 5, lookup_time = 100,
           get_ga_client = Returns (\<lambda>request_body. Raises ''429 quota exhausted''),
           fetched_at = ''2024-01-01T00:00:00Z'', store_time = 101\<rparr>"
  let ?c = "[''urls:7daysAgo:today'' \<mapsto> (Finite 50, JObj [(''rows'', JList [])])]"
  let ?w = "\<lparr>cache = ?c, upstream_calls = []\<rparr>"
  have run: "app_route ?env Urls Map.empty ?w
               = (Response (JObj [(''error'', JStr ''429 quota exhausted'')]) 500,
                  \<lparr>cache = ?c(''urls:7daysAgo:today'' := None),
                   upstream_calls =
                     [RunReportRequest ''properties/1'' (''7daysAgo'', ''today'')
                        [''pageLocation''] [''screenPageViews''] 1000]\<rparr>)"
    by (simp add: app_route_def urls_report_def cached_endpoint_def get_cached_def
        fetch_report_def error_response_def args_get_def urls_cache_key_def Let_def)
  have "(?c(''urls:7daysAgo:today'' := None)) ''urls:7daysAgo:today''
          \<noteq> ?c ''urls:7daysAgo:today''"
    by simp
  then have "?c(''urls:7daysAgo:today'' := None) \<noteq> ?c" by metis
  with run show ?thesis by simp
qed

text \<open>
  Claim C9, amended. When the lookup misses and the fetch fails with a message, in any
  report endpoint, the answer is the payload \<^verbatim>\<open>{"error": message}\<close> with status 500.
  No entry is written to the cache: the cache is what the lookup left, it holds no entry
  that was not there before, it is the cache before the request when that held no
  expired entry of the fingerprint (all the lookup can do is drop that entry), and
  every read at or after the time of the lookup returns what it would have returned on
  the cache before the request. There is no retry: the upstream calls grow by the one
  request of the handler, or by none when no client could be built.
\<close>

theorem fetch_failure_reported:
  assumes "fingerprint ep args = Inr key" "request_body_of env ep args = Inr rq"
    and "lookup_misses env w key" "fetch_fails env rq msg"
  shows "fst (app_route env ep args w) = error_response msg
       \<and> cache (snd (app_route env ep args w)) = snd (get_cached (lookup_time env) (cache w) key)
       \<and> cache (snd (app_route env ep args w)) \<subseteq>\<^sub>m cache w
       \<and> ((\<forall>expiry v. cache w key = Some (expiry, v) \<longrightarrow>
               \<not> float_less expiry (Finite (lookup_time env))) \<longrightarrow>
            cache (snd (app_route env ep args w)) = cache w)
       \<and> (\<forall>t k. lookup_time env \<le> t \<longrightarrow>
             fst (get_cached t (cache (snd (app_route env ep args w))) k)
               = fst (get_cached t (cache w) k))
       \<and> upstream_calls (snd (app_route env ep args w))
           = upstream_calls w @
               (case get_ga_client env of Raises e \<Rightarrow> [] | Returns client \<Rightarrow> [rq])"
proof -
  from app_route_frame [OF assms(1), of env] assms(2) obtain build ttl
    where "app_route env ep args w = cached_endpoint env key rq build ttl w"
    by auto
  with cached_endpoint_fail [OF assms(3,4)]
  have "app_route env ep args w
           = (error_response msg,
              w\<lparr>cache := snd (get_cached (lookup_time env) (cache w) key),
                upstream_calls := upstream_calls w @
                  (case get_ga_client env of Raises e \<Rightarrow> [] | Returns client \<Rightarrow> [rq])\<rparr>)"
    by simp
  then show ?thesis
    by (simp add: get_cached_map_le get_cached_after_lookup get_cached_nothing_stale)
qed

theorem fetch_failure_reported_witness:
  "app_route
     \<lparr>PROPERTY = ''properties/1'', CACHE_TTL = 5, lookup_time = 100,
      get_ga_client = Returns (\<lambda>request_body. Raises ''429 quota exhausted''),
      fetched_at = ''2024-01-01T00:00:00Z'', store_time = 101\<rparr>
     Urls Map.empty
     \<lparr>cache = [''realtime-active'' \<mapsto> (Finite 102, JObj [(''totalActive'', JInt 0)])],
      upstream_calls = []\<rparr>
   = (Response (JObj [(''error'', JStr ''429 quota exhausted'')]) 500,
      \<lparr>cache = [''realtime-active'' \<mapsto> (Finite 102, JObj [(''totalActive'', JInt 0)])],
       upstream_calls =
         [RunReportRequest ''properties/1'' (''7daysAgo'', ''today'') [''pageLocation'']
            [''screenPageViews''] 1000]\<rparr>)
   \<and> fst (get_cached 101
          (cache (snd (app_route
             \<lparr>PROPERTY = ''properties/1'', CACHE_TTL = 5, lookup_time = 100,
              get_ga_client = Returns (\<lambda>request_body. Raises ''429 quota exhausted''),
              fetched_at = ''2024-01-01T00:00:00Z'', store_time = 101\<rparr>
             Urls Map.empty
             \<lparr>cache = [''realtime-active'' \<mapsto> (Finite 102, JObj [(''totalActive'', JInt 0)])],
              upstream_calls = []\<rparr>)))
          ''realtime-active'')
     = Some (JObj [(''totalActive'', JInt 0)])"
proof -
  let ?env = "\<lparr>PROPERTY = ''properties/1'', CACHE_TTL = 5, lookup_time = 100,
           get_ga_client = Returns (\<lambda>request_body. Raises ''429 quota exhausted''),
           fetched_at = ''2024-01-01T00:00:00Z'', store_time = 101\<rparr>"
  let ?c = "[''realtime-active'' \<mapsto> (Finite 102, JObj [(''totalActive'', JInt 0)])]"
  let ?w = "\<lparr>cache = ?c, upstream_calls = []\<rparr>"
  let ?rq = "RunReportRequest ''properties/1'' (''7daysAgo'', ''today'') [''pageLocation'']
          [''screenPageViews''] 1000"
  let ?r = "app_route ?env Urls Map.empty ?w"
  have fp: "fingerprint Urls Map.empty = Inr ''urls:7daysAgo:today''"
    by (simp add: fingerprint_def args_get_def urls_cache_key_def)
  have rq: "request_body_of ?env Urls Map.empty = Inr ?rq"
    by (simp add: request_body_of_def args_get_def)
  have miss: "lookup_misses ?env ?w ''urls:7daysAgo:today''"
    by (simp add: lookup_misses_def get_cached_def)
  have fails: "fetch_fails ?env ?rq ''429 quota exhausted''"
    by (simp add: fetch_fails_def)
  note r = fetch_failure_reported [OF fp rq miss fails]
  have resp: "fst ?r = Response (JObj [(''error'', JStr ''429 quota exhausted'')]) 500"
    using r [THEN conjunct1] by (simp add: error_response_def)
  have fresh: "\<forall>expiry v. cache ?w ''urls:7daysAgo:today'' = Some (expiry, v) \<longrightarrow>
                 \<not> float_less expiry (Finite (lookup_time ?env))"
    by simp
  have same: "cache (snd ?r) = ?c"
    using r [THEN conjunct2, THEN conjunct2, THEN conjunct2, THEN conjunct1, THEN mp, OF fresh]
    by simp
  have calls: "upstream_calls (snd ?r) = [?rq]"
    using r [THEN conjunct2, THEN conjunct2, THEN conjunct2, THEN conjunct2, THEN conjunct2]
    by simp
  have read: "fst (get_cached 101 (cache (snd ?r)) ''realtime-active'')
                = Some (JObj [(''totalActive'', JInt 0)])"
    using r [THEN conjunct2, THEN conjunct2, THEN conjunct2, THEN conjunct2, THEN conjunct1,
        THEN spec, THEN spec, THEN mp, of 101 "''realtime-active''"]
    by (simp add: get_cached_def)
  have whole: "?r = (fst ?r, \<lparr>cache = cache (snd ?r), upstream_calls = upstream_calls (snd ?r)\<rparr>)"
    by (cases "snd ?r") (simp add: prod_eq_iff)
  from whole resp same calls have "?r = (Response (JObj [(''error'', JStr ''429 quota exhausted'')]) 500,
      \<lparr>cache = ?c, upstream_calls = [?rq]\<rparr>)"
    by simp
  with read show ?thesis by blast
qed

lemma dropWhile_keeps: "x \<in> set xs \<Longrightarrow> \<not> P x \<Longrightarrow> x \<in> set (dropWhile P xs)"
  by (induction xs) auto

lemma strip_keeps: "c \<in> set s \<Longrightarrow> \<not> is_space c \<Longrightarrow> c \<in> set (strip s)"
  by (simp add: strip_def dropWhile_keeps)

lemma split_sign_keeps:
  "c \<in> set s \<Longrightarrow> c \<noteq> CHR ''-'' \<Longrightarrow> c \<noteq> CHR ''+'' \<Longrightarrow> c \<in> set (snd (split_sign s))"
  by (auto simp: split_sign_def split: list.splits)

lemma drop_underscores_keeps:
  "drop_underscores prev s = Some ds \<Longrightarrow> c \<in> set s \<Longrightarrow> c \<noteq> CHR ''_'' \<Longrightarrow> c \<in> set ds"
  by (induction s arbitrary: prev ds) (auto split: if_splits)

text \<open>
  A text with a character that is no digit, blank, sign or underscore is no integer to
  \<^verbatim>\<open>int\<close>.
\<close>

lemma py_int_rejects:
  assumes "c \<in> set s" "\<not> is_digit c" "\<not> is_space c"
    and "c \<noteq> CHR ''-''" "c \<noteq> CHR ''+''" "c \<noteq> CHR ''_''"
  shows "py_int s = Inl ValueError"
proof -
  obtain neg body where sb: "split_sign (strip s) = (neg, body)" by (cases "split_sign (strip s)")
  from assms strip_keeps [of c s] split_sign_keeps [of c "strip s"] sb have c: "c \<in> set body"
    by simp
  show ?thesis
  proof (cases "drop_underscores (CHR 0x00) body")
    case None
    with sb show ?thesis by (simp add: py_int_def)
  next
    case (Some ds)
    from drop_underscores_keeps [OF Some c assms(6)] assms(2) have "\<not> list_all is_digit ds"
      by (auto simp: list_all_iff)
    with sb Some show ?thesis by (simp add: py_int_def)
  qed
qed

lemma py_int_abc: "py_int ''abc'' = Inl ValueError"
  by code_simp

text \<open>
  Claim C10. In the traffic endpoint, a \<^verbatim>\<open>limit\<close> parameter that \<^verbatim>\<open>int\<close> rejects (every
  text that is not a number, such as \<^verbatim>\<open>abc\<close>) makes the exception leave the handler
  before the lookup: the state is untouched, so there is no lookup, fetch or
  normalization, and the outcome is not a payload \<^verbatim>\<open>{"error": ...}\<close>, which is what a
  failure inside the \<^verbatim>\<open>try\<close> block gives.
\<close>

theorem traffic_bad_limit_unhandled:
  assumes "py_int (args_get args ''limit'' ''100'') = Inl e"
  shows "app_route env Traffic args w = (Unhandled e, w)
       \<and> (\<forall>msg. fst (app_route env Traffic args w) \<noteq> error_response msg)"
  using assms by (simp add: app_route_def traffic_report_def error_response_def)

theorem traffic_bad_limit_unhandled_witness:
  "app_route
     \<lparr>PROPERTY = ''properties/1'', CACHE_TTL = 5, lookup_time = 100,
      get_ga_client = Returns (\<lambda>request_body. Returns []),
      fetched_at = ''2024-01-01T00:00:00Z'', store_time = 101\<rparr>
     Traffic [''limit'' \<mapsto> ''abc'']
     \<lparr>cache = Map.empty, upstream_calls = []\<rparr>
   = (Unhandled ValueError, \<lparr>cache = Map.empty, upstream_calls = []\<rparr>)"
proof -
  have "py_int (args_get [''limit'' \<mapsto> ''abc''] ''limit'' ''100'') = Inl ValueError"
    by (simp add: args_get_def py_int_abc)
  from traffic_bad_limit_unhandled [OF this] show ?thesis by blast
qed

end
